theory Spec2Isabelle
  imports Complex_Main "HOL-Library.Sublist"
begin

section \<open>JavaScript numbers and their comparisons\<close>

text \<open>
  A JavaScript \<open>number\<close> is an IEEE double: a finite value, one of the two infinities, or
  NaN.  Every finite double is a real number and the relational operators compare the
  exact values, so a finite number is modelled by the real it denotes.  A statement
  proved for all reals holds for all doubles.  (The sign of zero is not modelled: no
  comparison depends on it.)
\<close>

datatype jsnum = NaN | NegInf | Fin real | PosInf

text \<open>\<open>a <= b\<close>: false as soon as one operand is NaN.\<close>

fun js_le :: "jsnum \<Rightarrow> jsnum \<Rightarrow> bool" where
  "js_le NaN b = False"
| "js_le a NaN = False"
| "js_le NegInf b = True"
| "js_le a PosInf = True"
| "js_le (Fin x) (Fin y) = (x \<le> y)"
| "js_le (Fin x) NegInf = False"
| "js_le PosInf b = False"

text \<open>\<open>a >= b\<close>.\<close>

definition js_ge :: "jsnum \<Rightarrow> jsnum \<Rightarrow> bool" where
  "js_ge a b = js_le b a"


section \<open>The AQI band table (\<open>lib/air-quality-constants.ts\<close>)\<close>

record AQILevel =
  min_aqi :: jsnum
  max_aqi :: jsnum
  color :: string
  level :: string
  description :: string
  bgColor :: string
  textColor :: string
  borderColor :: string
  glowColor :: string

definition good :: AQILevel where
  "good = \<lparr> min_aqi = Fin 0, max_aqi = Fin 50, color = ''#00E400'', level = ''Good'',
     description = ''Air quality is satisfactory'',
     bgColor = ''bg-green-500/20'', textColor = ''text-green-400'',
     borderColor = ''border-green-500/30'', glowColor = ''shadow-green-500/20'' \<rparr>"

definition moderate :: AQILevel where
  "moderate = \<lparr> min_aqi = Fin 51, max_aqi = Fin 100, color = ''#FFFF00'', level = ''Moderate'',
     description = ''Air quality is acceptable'',
     bgColor = ''bg-yellow-500/20'', textColor = ''text-yellow-400'',
     borderColor = ''border-yellow-500/30'', glowColor = ''shadow-yellow-500/20'' \<rparr>"

definition unhealthySensitive :: AQILevel where
  "unhealthySensitive = \<lparr> min_aqi = Fin 101, max_aqi = Fin 150, color = ''#FF7E00'',
     level = ''Unhealthy for Sensitive Groups'',
     description = ''Sensitive groups may experience health effects'',
     bgColor = ''bg-orange-500/20'', textColor = ''text-orange-400'',
     borderColor = ''border-orange-500/30'', glowColor = ''shadow-orange-500/20'' \<rparr>"

definition unhealthy :: AQILevel where
  "unhealthy = \<lparr> min_aqi = Fin 151, max_aqi = Fin 200, color = ''#FF0000'', level = ''Unhealthy'',
     description = ''Everyone may experience health effects'',
     bgColor = ''bg-red-500/20'', textColor = ''text-red-400'',
     borderColor = ''border-red-500/30'', glowColor = ''shadow-red-500/20'' \<rparr>"

definition veryUnhealthy :: AQILevel where
  "veryUnhealthy = \<lparr> min_aqi = Fin 201, max_aqi = Fin 300, color = ''#8F3F97'',
     level = ''Very Unhealthy'',
     description = ''Health warnings of emergency conditions'',
     bgColor = ''bg-purple-500/20'', textColor = ''text-purple-400'',
     borderColor = ''border-purple-500/30'', glowColor = ''shadow-purple-500/20'' \<rparr>"

definition hazardous :: AQILevel where
  "hazardous = \<lparr> min_aqi = Fin 301, max_aqi = Fin 500, color = ''#7E0023'', level = ''Hazardous'',
     description = ''Health alert: everyone may experience serious health effects'',
     bgColor = ''bg-red-900/40'', textColor = ''text-red-300'',
     borderColor = ''border-red-900/50'', glowColor = ''shadow-red-900/30'' \<rparr>"

text \<open>
  \<open>AQI_LEVELS\<close> is an object literal with string keys; \<open>Object.entries\<close> lists its
  properties in insertion order, so the table is the association list below.
\<close>

definition AQI_LEVELS :: "(string \<times> AQILevel) list" where
  "AQI_LEVELS =
     [(''good'', good), (''moderate'', moderate), (''unhealthySensitive'', unhealthySensitive),
      (''unhealthy'', unhealthy), (''veryUnhealthy'', veryUnhealthy), (''hazardous'', hazardous)]"

text \<open>The test of the loop body: \<open>aqi >= level.min && aqi <= level.max\<close>.\<close>

definition in_band :: "jsnum \<Rightarrow> AQILevel \<Rightarrow> bool" where
  "in_band aqi lv = (js_ge aqi (min_aqi lv) \<and> js_le aqi (max_aqi lv))"

text \<open>The \<open>for ... of Object.entries(AQI_LEVELS)\<close> loop, returning at the first match.\<close>

fun scan_levels :: "(string \<times> AQILevel) list \<Rightarrow> jsnum \<Rightarrow> AQILevel option" where
  "scan_levels [] aqi = None"
| "scan_levels ((key, lv) # rest) aqi = (if in_band aqi lv then Some lv else scan_levels rest aqi)"

definition getAQILevel :: "jsnum \<Rightarrow> AQILevel" where
  "getAQILevel aqi = (case scan_levels AQI_LEVELS aqi of Some lv \<Rightarrow> lv | None \<Rightarrow> good)"


section \<open>The band table and classifier of the vanilla prototype (\<open>frontend2/script.js\<close>)\<close>

record ProtoLevel =
  pmin :: jsnum
  pmax :: jsnum
  pcolor :: string
  plevel :: string
  pdescription :: string

text \<open>
  The prototype returns \<open>{...level, key: key}\<close> on a match and the bare table entry
  \<open>AQI_LEVELS.hazardous\<close> (no \<open>key\<close> property) when the loop falls through.
\<close>

record ProtoResult =
  entry :: ProtoLevel
  key :: "string option"

definition proto_good :: ProtoLevel where
  "proto_good = \<lparr> pmin = Fin 0, pmax = Fin 50, pcolor = ''#00E400'', plevel = ''Good'',
     pdescription = ''Air quality is satisfactory'' \<rparr>"

definition proto_moderate :: ProtoLevel where
  "proto_moderate = \<lparr> pmin = Fin 51, pmax = Fin 100, pcolor = ''#FFFF00'', plevel = ''Moderate'',
     pdescription = ''Air quality is acceptable'' \<rparr>"

definition proto_unhealthySensitive :: ProtoLevel where
  "proto_unhealthySensitive = \<lparr> pmin = Fin 101, pmax = Fin 150, pcolor = ''#FF7E00'',
     plevel = ''Unhealthy for Sensitive Groups'',
     pdescription = ''Sensitive groups may experience health effects'' \<rparr>"

definition proto_unhealthy :: ProtoLevel where
  "proto_unhealthy = \<lparr> pmin = Fin 151, pmax = Fin 200, pcolor = ''#FF0000'', plevel = ''Unhealthy'',
     pdescription = ''Everyone may experience health effects'' \<rparr>"

definition proto_veryUnhealthy :: ProtoLevel where
  "proto_veryUnhealthy = \<lparr> pmin = Fin 201, pmax = Fin 300, pcolor = ''#8F3F97'',
     plevel = ''Very Unhealthy'',
     pdescription = ''Health warnings of emergency conditions'' \<rparr>"

definition proto_hazardous :: ProtoLevel where
  "proto_hazardous = \<lparr> pmin = Fin 301, pmax = Fin 500, pcolor = ''#7E0023'', plevel = ''Hazardous'',
     pdescription = ''Health alert: everyone may experience serious health effects'' \<rparr>"

definition proto_AQI_LEVELS :: "(string \<times> ProtoLevel) list" where
  "proto_AQI_LEVELS =
     [(''good'', proto_good), (''moderate'', proto_moderate),
      (''unhealthySensitive'', proto_unhealthySensitive), (''unhealthy'', proto_unhealthy),
      (''veryUnhealthy'', proto_veryUnhealthy), (''hazardous'', proto_hazardous)]"

fun proto_scan :: "(string \<times> ProtoLevel) list \<Rightarrow> jsnum \<Rightarrow> ProtoResult option" where
  "proto_scan [] aqi = None"
| "proto_scan ((k, lv) # rest) aqi =
     (if js_ge aqi (pmin lv) \<and> js_le aqi (pmax lv)
      then Some \<lparr> entry = lv, key = Some k \<rparr>
      else proto_scan rest aqi)"

definition proto_getAQILevel :: "jsnum \<Rightarrow> ProtoResult" where
  "proto_getAQILevel aqi =
     (case proto_scan proto_AQI_LEVELS aqi of
        Some r \<Rightarrow> r
      | None \<Rightarrow> \<lparr> entry = proto_hazardous, key = None \<rparr>)"


section \<open>The number formatter \<open>formatNumber\<close>\<close>

text \<open>Decimal digits of a natural number, most significant first.\<close>

definition digit_char :: "nat \<Rightarrow> char" where
  "digit_char d = ''0123456789'' ! (d mod 10)"

fun decimal :: "nat \<Rightarrow> string" where
  "decimal n = (if n < 10 then [digit_char n] else decimal (n div 10) @ [digit_char (n mod 10)])"

declare decimal.simps [simp del]

text \<open>
  \<open>Number.prototype.toFixed(fd)\<close> is a built-in of the language; the definition follows
  ECMA-262, 21.1.3.3, on the exact value of the number.  A digit count outside 0..100
  throws a RangeError (the result \<open>None\<close>), and that check comes before the one for
  non-finite numbers.  For a magnitude of at least \<open>10^21\<close> the standard falls back to
  \<open>Number::toString\<close>, whose shortest-digits algorithm depends on the double format; it is
  the parameter \<open>numToString\<close>.  Otherwise \<open>n\<close> is the integer closest to \<open>x * 10^f\<close>,
  the larger one on a tie.
\<close>

definition toFixed :: "(real \<Rightarrow> string) \<Rightarrow> jsnum \<Rightarrow> int \<Rightarrow> string option" where
  "toFixed numToString x fd =
     (if fd < 0 \<or> 100 < fd then None
      else case x of
        NaN \<Rightarrow> Some ''NaN''
      | PosInf \<Rightarrow> Some ''Infinity''
      | NegInf \<Rightarrow> Some ''-Infinity''
      | Fin r \<Rightarrow>
          (let s = (if r < 0 then ''-'' else []);
               a = \<bar>r\<bar>
           in if 10 ^ 21 \<le> a then Some (s @ numToString a)
              else
                let f = nat fd;
                    n = nat \<lfloor>a * 10 ^ f + 1 / 2\<rfloor>;
                    m = decimal n
                in if f = 0 then Some (s @ m)
                   else
                     let m' = replicate (f + 1 - length m) (CHR ''0'') @ m;
                         k = length m'
                     in Some (s @ take (k - f) m' @ ''.'' @ drop (k - f) m')))"

text \<open>The argument \<open>num: number | null | undefined\<close>.\<close>

datatype jsarg = Null | Undefined | Num jsnum

text \<open>
  \<open>parseFloat(v)\<close> converts its argument to a string and parses the longest prefix that is
  a decimal literal.  \<open>null\<close> and \<open>undefined\<close> give the strings "null" and "undefined",
  which have no such prefix: the result is NaN.  For a number the string is the one
  \<open>Number::toString\<close> produces, which parses back to the same number (also "NaN",
  "Infinity" and "-Infinity").  \<open>parseFloat(num.toString())\<close> of the TypeScript source is
  the same conversion written out.
\<close>

definition parseFloat :: "jsarg \<Rightarrow> jsnum" where
  "parseFloat v = (case v of Null \<Rightarrow> NaN | Undefined \<Rightarrow> NaN | Num x \<Rightarrow> x)"

text \<open>
  \<open>formatNumber\<close> of \<open>lib/air-quality-constants.ts\<close> (and, with the same body, of
  \<open>nextjs_utils_constants.js\<close>).  The parameter \<open>decimals\<close> defaults to 1.
\<close>

definition formatNumber :: "(real \<Rightarrow> string) \<Rightarrow> jsarg \<Rightarrow> int option \<Rightarrow> string option" where
  "formatNumber numToString num decimals =
     (let d = (case decimals of None \<Rightarrow> 1 | Some d \<Rightarrow> d)
      in if num = Null \<or> num = Undefined then Some ''--''
         else toFixed numToString (parseFloat num) d)"

text \<open>\<open>formatNumber\<close> of the vanilla prototype, \<open>frontend2/script.js\<close>: no guard.\<close>

definition proto_formatNumber :: "(real \<Rightarrow> string) \<Rightarrow> jsarg \<Rightarrow> int option \<Rightarrow> string option" where
  "proto_formatNumber numToString num decimals =
     (let d = (case decimals of None \<Rightarrow> 1 | Some d \<Rightarrow> d)
      in toFixed numToString (parseFloat num) d)"


section \<open>JavaScript values and truthiness\<close>

text \<open>
  The plain values that JSON can carry: what \<open>response.json()\<close> resolves with, and what
  a program can throw besides an \<open>Error\<close> object.
\<close>

datatype json =
    JNull
  | JBool bool
  | JNum jsnum
  | JStr string
  | JArr "json list"
  | JObj "(string \<times> json) list"

text \<open>
  \<open>!!v\<close>: null, false, 0, NaN and the empty string are falsy; every array and every
  object is truthy.
\<close>

fun truthy :: "json \<Rightarrow> bool" where
  "truthy JNull = False"
| "truthy (JBool b) = b"
| "truthy (JNum x) = (x \<noteq> NaN \<and> x \<noteq> Fin 0)"
| "truthy (JStr s) = (s \<noteq> [])"
| "truthy (JArr xs) = True"
| "truthy (JObj fs) = True"


section \<open>The fetch wrapper \<open>apiRequest\<close> (\<open>lib/air-quality-api.ts\<close>)\<close>

text \<open>
  A thrown value: an \<open>Error\<close> instance (also a \<open>DOMException\<close>, a \<open>TypeError\<close>, ...) with its
  \<open>name\<close> and \<open>message\<close>, or a plain value that is not an \<open>Error\<close> instance (a thrown
  \<open>undefined\<close> is taken as null: both are falsy and have no \<open>name\<close>).
\<close>

datatype thrown = Err string string | NotAnError json

fun instanceofError :: "thrown \<Rightarrow> bool" where
  "instanceofError (Err n m) = True"
| "instanceofError (NotAnError v) = False"

fun err_name :: "thrown \<Rightarrow> string option" where
  "err_name (Err n m) = Some n"
| "err_name (NotAnError v) = None"

text \<open>\<open>!!e\<close> for a thrown value: an \<open>Error\<close> instance is an object, hence truthy.\<close>

fun thrown_truthy :: "thrown \<Rightarrow> bool" where
  "thrown_truthy (Err n m) = True"
| "thrown_truthy (NotAnError v) = truthy v"

text \<open>\<open>new Error(message)\<close>.\<close>

definition new_Error :: "string \<Rightarrow> thrown" where
  "new_Error m = Err ''Error'' m"

text \<open>
  The rejection of a fetch whose \<open>AbortController\<close> was aborted: a \<open>DOMException\<close> named
  "AbortError".  (The message text varies between engines; the code reads the name
  only.)
\<close>

definition AbortError :: thrown where
  "AbortError = Err ''AbortError'' ''The operation was aborted.''"

text \<open>
  The rejection of a fetch whose \<open>AbortSignal.timeout\<close> signal fired: a \<open>DOMException\<close>
  named "TimeoutError".
\<close>

definition TimeoutError :: thrown where
  "TimeoutError = Err ''TimeoutError'' ''The operation timed out.''"

text \<open>
  What the backend does with one request, as seen from the caller; times are
  milliseconds after the call of \<open>fetch\<close>.  The response headers arrive (with status and
  status text) and the body follows or never does, or the request fails, or nothing
  ever comes back.
\<close>

datatype 'j body = BodyAt nat "thrown + 'j" | BodyNever

datatype 'j reply = Headers nat nat string "'j body" | NetFail nat thrown | NoReply

text \<open>
  The network: the replies to the coming calls of \<open>fetch\<close> in order (no reply once the
  list is used up), and the number of calls made so far.
\<close>

record 'j net =
  calls :: nat
  script :: "'j reply list"

datatype 'j fetched = Response nat string "'j body" | FetchRejected thrown

text \<open>
  \<open>await fetch(url, {signal, ...})\<close> with a signal that aborts \<open>limit\<close> milliseconds after
  the call, rejecting with \<open>abort_exn\<close>: the reply wins when it arrives before the signal
  fires (at the same millisecond the signal is taken to win).
\<close>

definition fetch :: "thrown \<Rightarrow> nat \<Rightarrow> 'j net \<Rightarrow> 'j fetched \<times> 'j net" where
  "fetch abort_exn limit nw =
     (let r = (case script nw of [] \<Rightarrow> NoReply | r # rs \<Rightarrow> r);
          nw' = nw \<lparr> calls := calls nw + 1, script := tl (script nw) \<rparr>
      in (case r of
            Headers t st txt b \<Rightarrow> if t < limit then Response st txt b else FetchRejected abort_exn
          | NetFail t e \<Rightarrow> if t < limit then FetchRejected e else FetchRejected abort_exn
          | NoReply \<Rightarrow> FetchRejected abort_exn,
          nw'))"

text \<open>A promise, once the event loop has run: its value, its rejection, or still pending.\<close>

datatype 'a promise = Resolved 'a | Rejected thrown | Pending

text \<open>
  \<open>await response.json()\<close>.  \<open>armed\<close> is the signal that can still abort the request
  while the body is read: its firing time and rejection, or \<open>None\<close> when the timer has
  been cleared, in which case a body that never arrives leaves the promise pending.
\<close>

definition response_json :: "(nat \<times> thrown) option \<Rightarrow> 'j body \<Rightarrow> 'j promise" where
  "response_json armed b =
     (case armed of
        None \<Rightarrow>
          (case b of
             BodyAt t (Inr j) \<Rightarrow> Resolved j
           | BodyAt t (Inl e) \<Rightarrow> Rejected e
           | BodyNever \<Rightarrow> Pending)
      | Some (limit, abort_exn) \<Rightarrow>
          (case b of
             BodyAt t r \<Rightarrow>
               if t < limit then (case r of Inr j \<Rightarrow> Resolved j | Inl e \<Rightarrow> Rejected e)
               else Rejected abort_exn
           | BodyNever \<Rightarrow> Rejected abort_exn))"

text \<open>\<open>response.ok\<close>: the status is in the range 200..299.\<close>

definition response_ok :: "nat \<Rightarrow> bool" where
  "response_ok st = (200 \<le> st \<and> st \<le> 299)"

text \<open>\<open>endpoint.includes(s)\<close>.\<close>

fun js_includes :: "string \<Rightarrow> string \<Rightarrow> bool" where
  "js_includes [] s = (s = [])"
| "js_includes (c # cs) s = (prefix s (c # cs) \<or> js_includes cs s)"

text \<open>
  The objects \<open>getMockData\<close> resolves with; their contents (time stamps and random
  numbers) are not modelled.
\<close>

datatype mock = MockForecast | MockAllForecasts | MockAlerts | MockEmpty

definition getMockData :: "string \<Rightarrow> mock" where
  "getMockData endpoint =
     (if js_includes endpoint ''/forecast/'' then MockForecast
      else if js_includes endpoint ''/forecast'' then MockAllForecasts
      else if js_includes endpoint ''/alerts/'' then MockAlerts
      else MockEmpty)"

datatype 'j payload = Json 'j | Mock mock

definition REQUEST_TIMEOUT :: nat where
  "REQUEST_TIMEOUT = 10000"

text \<open>
  The development branch.  The \<open>try\<close> block returns the parsed body of an ok response;
  everything thrown in it is caught and only logged, and a response that is not ok
  leaves the block; both paths end in \<open>return getMockData(endpoint)\<close>.
\<close>

definition apiRequest_development :: "string \<Rightarrow> 'j net \<Rightarrow> 'j payload promise \<times> 'j net" where
  "apiRequest_development endpoint nw =
     (let (res, nw') = fetch TimeoutError 2000 nw
      in (case res of
            FetchRejected e \<Rightarrow> Resolved (Mock (getMockData endpoint))
          | Response st txt b \<Rightarrow>
              if response_ok st
              then (case response_json (Some (2000, TimeoutError)) b of
                      Resolved j \<Rightarrow> Resolved (Json j)
                    | Rejected e \<Rightarrow> Resolved (Mock (getMockData endpoint))
                    | Pending \<Rightarrow> Pending)
              else Resolved (Mock (getMockData endpoint)),
          nw'))"

text \<open>The \<open>catch\<close> block of the production branch.\<close>

definition catch_block :: "thrown \<Rightarrow> 'a promise" where
  "catch_block e =
     (if instanceofError e \<and> err_name e = Some ''AbortError''
      then Rejected (new_Error ''Request timeout'')
      else Rejected e)"

text \<open>
  The production branch: the timer is cleared as soon as the headers are there, before
  the body is read.
\<close>

definition apiRequest_production :: "string \<Rightarrow> 'j net \<Rightarrow> 'j payload promise \<times> 'j net" where
  "apiRequest_production endpoint nw =
     (let (res, nw') = fetch AbortError REQUEST_TIMEOUT nw
      in (case res of
            FetchRejected e \<Rightarrow> catch_block e
          | Response st txt b \<Rightarrow>
              if \<not> response_ok st
              then catch_block (new_Error (''HTTP '' @ decimal st @ '': '' @ txt))
              else (case response_json None b of
                      Resolved j \<Rightarrow> Resolved (Json j)
                    | Rejected e \<Rightarrow> catch_block e
                    | Pending \<Rightarrow> Pending),
          nw'))"

text \<open>\<open>apiRequest\<close>; \<open>NODE_ENV\<close> is the value of \<open>process.env.NODE_ENV\<close>.\<close>

definition apiRequest :: "string \<Rightarrow> string \<Rightarrow> 'j net \<Rightarrow> 'j payload promise \<times> 'j net" where
  "apiRequest NODE_ENV endpoint nw =
     (if NODE_ENV = ''development'' then apiRequest_development endpoint nw
      else apiRequest_production endpoint nw)"

text \<open>When the reply to the next call of \<open>fetch\<close> arrives, if ever.\<close>

definition next_reply :: "'j net \<Rightarrow> 'j reply" where
  "next_reply nw = (case script nw of [] \<Rightarrow> NoReply | r # rs \<Rightarrow> r)"

fun arrives_before :: "nat \<Rightarrow> 'j reply \<Rightarrow> bool" where
  "arrives_before limit (Headers t st txt b) = (t < limit)"
| "arrives_before limit (NetFail t e) = (t < limit)"
| "arrives_before limit NoReply = False"


text \<open>
  The parsed body that arrives in time: the headers come before \<open>limit\<close> with an ok
  status and the body parses before \<open>limit\<close>.
\<close>

fun delivered_before :: "nat \<Rightarrow> 'j reply \<Rightarrow> 'j option" where
  "delivered_before limit (Headers t st txt (BodyAt t' (Inr j))) =
     (if t < limit \<and> response_ok st \<and> t' < limit then Some j else None)"
| "delivered_before limit r = None"


section \<open>The data hooks (\<open>lib/air-quality-api.ts\<close> and its plain JavaScript copy)\<close>

text \<open>
  Each hook calls \<open>useSWR(key, fetcher, options)\<close>.  The options objects and the keys are
  the same text in both copies of the file; intervals are in milliseconds, and
  \<open>dedupingInterval\<close> is absent from all but one of the objects.
\<close>

record SWROptions =
  refreshInterval :: nat
  revalidateOnFocus :: bool
  dedupingInterval :: "nat option"

record SWRCall =
  swr_key :: "string option"
  options :: SWROptions

text \<open>
  \<open>location ? `...${location}` : null\<close>: a location that is null or the empty string is
  falsy and gives the key null.
\<close>

definition key_for :: "string option \<Rightarrow> (string \<Rightarrow> string) \<Rightarrow> string option" where
  "key_for location template =
     (case location of
        None \<Rightarrow> None
      | Some l \<Rightarrow> if l = [] then None else Some (template l))"

definition useForecast_call :: "string option \<Rightarrow> SWRCall" where
  "useForecast_call location =
     \<lparr> swr_key = key_for location (\<lambda>l. ''/forecast/'' @ l),
       options = \<lparr> refreshInterval = 5 * 60 * 1000, revalidateOnFocus = False,
                   dedupingInterval = Some 60000 \<rparr> \<rparr>"

definition useHistorical_call :: "string option \<Rightarrow> nat \<Rightarrow> SWRCall" where
  "useHistorical_call location days =
     \<lparr> swr_key = key_for location (\<lambda>l. ''/historical/'' @ l @ ''/'' @ decimal days),
       options = \<lparr> refreshInterval = 15 * 60 * 1000, revalidateOnFocus = False,
                   dedupingInterval = None \<rparr> \<rparr>"

definition useAlerts_call :: "string option \<Rightarrow> SWRCall" where
  "useAlerts_call location =
     \<lparr> swr_key = key_for location (\<lambda>l. ''/alerts/'' @ l),
       options = \<lparr> refreshInterval = 2 * 60 * 1000, revalidateOnFocus = True,
                   dedupingInterval = None \<rparr> \<rparr>"

definition useHealthRecommendations_call :: "string option \<Rightarrow> SWRCall" where
  "useHealthRecommendations_call location =
     \<lparr> swr_key = key_for location (\<lambda>l. ''/health-recommendations/'' @ l),
       options = \<lparr> refreshInterval = 10 * 60 * 1000, revalidateOnFocus = False,
                   dedupingInterval = None \<rparr> \<rparr>"

definition useSystemStatus_call :: SWRCall where
  "useSystemStatus_call =
     \<lparr> swr_key = Some ''/system-status'',
       options = \<lparr> refreshInterval = 30 * 1000, revalidateOnFocus = True,
                   dedupingInterval = None \<rparr> \<rparr>"

definition useValidation_call :: "string option \<Rightarrow> SWRCall" where
  "useValidation_call location =
     \<lparr> swr_key = key_for location (\<lambda>l. ''/validation/'' @ l),
       options = \<lparr> refreshInterval = 30 * 60 * 1000, revalidateOnFocus = False,
                   dedupingInterval = None \<rparr> \<rparr>"

text \<open>
  Three of the methods of \<open>airQualityAPI\<close> that the hooks use as fetchers; like the
  others, each is one call of \<open>apiRequest\<close> on its endpoint.
\<close>

definition getForecast :: "string \<Rightarrow> string \<Rightarrow> 'j net \<Rightarrow> 'j payload promise \<times> 'j net" where
  "getForecast NODE_ENV location nw = apiRequest NODE_ENV (''/forecast/'' @ location) nw"

definition getSystemStatus :: "string \<Rightarrow> 'j net \<Rightarrow> 'j payload promise \<times> 'j net" where
  "getSystemStatus NODE_ENV nw = apiRequest NODE_ENV ''/data/status'' nw"

definition getAlerts :: "string \<Rightarrow> string \<Rightarrow> 'j net \<Rightarrow> 'j payload promise \<times> 'j net" where
  "getAlerts NODE_ENV location nw = apiRequest NODE_ENV (''/alerts/'' @ location) nw"

text \<open>
  What \<open>useSWR\<close> hands back, \<open>{ data, error, mutate }\<close>: \<open>data\<close> is what the fetcher last
  resolved with (the parsed body or a mock object; undefined before that), \<open>error\<close> the
  value the fetcher last rejected with (undefined when there is none), \<open>mutate\<close> the
  library's revalidation function bound to the key, of a type the hook does not look
  into.
\<close>

record 'm SWRResponse =
  swr_data :: "json payload option"
  swr_error :: "thrown option"
  swr_mutate :: 'm

record 'm ForecastHook =
  forecast :: "json payload option"
  isLoading :: bool
  isError :: "thrown option"
  refresh :: 'm

text \<open>\<open>!!data\<close> and \<open>!!error\<close>: undefined is falsy, a mock object is truthy.\<close>

fun data_truthy :: "json payload option \<Rightarrow> bool" where
  "data_truthy None = False"
| "data_truthy (Some (Json j)) = truthy j"
| "data_truthy (Some (Mock m)) = True"

fun error_truthy :: "thrown option \<Rightarrow> bool" where
  "error_truthy None = False"
| "error_truthy (Some e) = thrown_truthy e"

text \<open>
  \<open>useForecast\<close>, with the library function \<open>useSWR\<close> as a parameter:
  \<open>{ forecast: data, isLoading: !error && !data, isError: error, refresh: mutate }\<close>.
\<close>

definition useForecast :: "(SWRCall \<Rightarrow> 'm SWRResponse) \<Rightarrow> string option \<Rightarrow> 'm ForecastHook" where
  "useForecast useSWR location =
     (let r = useSWR (useForecast_call location)
      in \<lparr> forecast = swr_data r,
           isLoading = (\<not> error_truthy (swr_error r) \<and> \<not> data_truthy (swr_data r)),
           isError = swr_error r,
           refresh = swr_mutate r \<rparr>)"


section \<open>The polling data cache\<close>

text \<open>
  The hooks keep no state of their own: key, fetcher and options go to \<open>useSWR\<close> of the
  \<open>swr\<close> package, which the repository imports and does not contain.  The cache below
  is therefore written from sections 3, 4.2 and 5 of the specification.  The library's
  \<open>mutate\<close> is not part of it: the hooks hand it on as \<open>refresh\<close> untouched.
\<close>

text \<open>
  Modelled from the spec: the cache entry of \<open>useSWR\<close> (package \<open>swr\<close>, not in the source
  tree), "CacheEntry" of section 3: last successful value, last error, time of the last
  successful fetch, and whether a fetch is outstanding.  The key indexes the cache map.
\<close>

record 'd CacheEntry =
  data :: "'d option"
  error :: "thrown option"
  lastFetchedAt :: "nat option"
  inFlight :: bool

text \<open>
  Modelled from the spec: the cache map of \<open>useSWR\<close> (package \<open>swr\<close>, not in the source
  tree), "process-wide map keyed by resource key".
\<close>

record 'd Cache =
  entries :: "string \<rightharpoonup> 'd CacheEntry"

text \<open>
  Modelled from the spec: the cache of \<open>useSWR\<close> (not in the source tree) before any
  subscription.
\<close>

definition empty_cache :: "'d Cache" where
  "empty_cache = \<lparr> entries = Map.empty \<rparr>"

text \<open>
  Modelled from the spec: starting a fetch in \<open>useSWR\<close> (not in the source tree),
  "triggers fetcher, sets inFlight = true"; nothing is started while a fetch for the
  key is outstanding ("at most one in-flight fetch per key").
\<close>

definition start_fetch :: "string \<Rightarrow> 'd Cache \<Rightarrow> 'd Cache" where
  "start_fetch k c =
     (case entries c k of
        None \<Rightarrow> c
      | Some e \<Rightarrow>
          if inFlight e then c
          else c \<lparr> entries := (entries c)(k \<mapsto> e \<lparr> inFlight := True \<rparr>) \<rparr>)"

text \<open>
  Modelled from the spec: \<open>subscribe\<close> of \<open>useSWR\<close> (not in the source tree).  "On first
  subscription to a previously-unseen key: immediately triggers fetcher, sets inFlight =
  true"; a later subscription does not trigger a fetch.
\<close>

definition subscribe :: "string \<Rightarrow> 'd Cache \<Rightarrow> 'd Cache" where
  "subscribe k c =
     (case entries c k of
        None \<Rightarrow>
          start_fetch k
            (c \<lparr> entries := (entries c)(k \<mapsto>
                   \<lparr> data = None, error = None, lastFetchedAt = None, inFlight = False \<rparr>) \<rparr>)
      | Some e \<Rightarrow> c)"

text \<open>
  Modelled from the spec: the revalidation timer of \<open>useSWR\<close> (not in the source tree):
  "after that interval elapses since lastFetchedAt, a new fetch is triggered
  automatically, without clearing the previously displayed value".
\<close>

definition tick :: "nat \<Rightarrow> string \<Rightarrow> nat \<Rightarrow> 'd Cache \<Rightarrow> 'd Cache" where
  "tick interval k now c =
     (case entries c k of
        None \<Rightarrow> c
      | Some e \<Rightarrow>
          (case lastFetchedAt e of
             None \<Rightarrow> c
           | Some t \<Rightarrow> if t + interval \<le> now then start_fetch k c else c))"

text \<open>
  Modelled from the spec: revalidation on visibility regain in \<open>useSWR\<close> (not in the
  source tree): "a fetch is also triggered when the consuming context regains
  attention/focus", "but only for the marked resource kinds".
\<close>

definition focus_regain :: "bool \<Rightarrow> string \<Rightarrow> 'd Cache \<Rightarrow> 'd Cache" where
  "focus_regain marked k c = (if marked then start_fetch k c else c)"

text \<open>
  Modelled from the spec: the completion of the outstanding fetch in \<open>useSWR\<close> (not in
  the source tree).  A success overwrites \<open>data\<close>, clears \<open>error\<close> and stamps
  \<open>lastFetchedAt\<close>; a failure (a timeout is one) "sets error, leaves data untouched".
  Without an outstanding fetch there is nothing to complete.
\<close>

definition complete_fetch :: "string \<Rightarrow> nat \<Rightarrow> thrown + 'd \<Rightarrow> 'd Cache \<Rightarrow> 'd Cache" where
  "complete_fetch k now result c =
     (case entries c k of
        None \<Rightarrow> c
      | Some e \<Rightarrow>
          if \<not> inFlight e then c
          else
            c \<lparr> entries := (entries c)(k \<mapsto>
                   (case result of
                      Inr v \<Rightarrow> e \<lparr> data := Some v, error := None, lastFetchedAt := Some now,
                                   inFlight := False \<rparr>
                    | Inl err \<Rightarrow> e \<lparr> error := Some err, inFlight := False \<rparr>)) \<rparr>)"




text \<open>
  Modelled from the spec: what \<open>useSWR\<close> (not in the source tree) returns to a subscriber:
  the entry's \<open>data\<close> and \<open>error\<close>, both undefined for the key null and for an unseen key.
  The library's \<open>mutate\<close> for the key is the parameter \<open>mutate\<close>.
\<close>

definition cache_useSWR ::
  "(string option \<Rightarrow> 'm) \<Rightarrow> json payload Cache \<Rightarrow> SWRCall \<Rightarrow> 'm SWRResponse" where
  "cache_useSWR mutate c call =
     (case swr_key call of
        None \<Rightarrow> \<lparr> swr_data = None, swr_error = None, swr_mutate = mutate None \<rparr>
      | Some k \<Rightarrow>
          (case entries c k of
             None \<Rightarrow> \<lparr> swr_data = None, swr_error = None, swr_mutate = mutate (Some k) \<rparr>
           | Some e \<Rightarrow>
               \<lparr> swr_data = data e, swr_error = error e, swr_mutate = mutate (Some k) \<rparr>))"



text \<open>The last error of a key, undefined for an unseen key.\<close>

definition entry_error :: "'d Cache \<Rightarrow> string \<Rightarrow> thrown option" where
  "entry_error c k = (case entries c k of None \<Rightarrow> None | Some e \<Rightarrow> error e)"

text \<open>
  Modelled from the spec: how \<open>useSWR\<close> (not in the source tree) takes the promise of the
  fetcher, "until the first result (success or failure) arrives": a resolution is a
  success, a rejection a failure, and while the promise is pending the fetch stays
  outstanding.
\<close>

definition settle :: "string \<Rightarrow> nat \<Rightarrow> 'd promise \<Rightarrow> 'd Cache \<Rightarrow> 'd Cache" where
  "settle k now p c =
     (case p of
        Resolved v \<Rightarrow> complete_fetch k now (Inr v) c
      | Rejected e \<Rightarrow> complete_fetch k now (Inl e) c
      | Pending \<Rightarrow> c)"

text \<open>
  Modelled from the spec: the events of the cache of \<open>useSWR\<close> (not in the source tree)
  when the fetchers are the application's: the result of a fetch is what \<open>apiRequest\<close>
  makes of the endpoint the fetcher asks for and of the network it meets.
\<close>

datatype 'j app_event =
    AppSubscribe string
  | AppTick string nat
  | AppFocusRegain string
  | AppFetched string nat string "'j net"

text \<open>
  Modelled from the spec: one transition of the cache of \<open>useSWR\<close> (not in the source
  tree) under the application's fetchers, for a value of \<open>NODE_ENV\<close>.
\<close>

fun app_step ::
  "string \<Rightarrow> (string \<Rightarrow> SWROptions) \<Rightarrow> 'j payload Cache \<Rightarrow> 'j app_event \<Rightarrow> 'j payload Cache" where
  "app_step NODE_ENV opts c (AppSubscribe k) = subscribe k c"
| "app_step NODE_ENV opts c (AppTick k now) = tick (refreshInterval (opts k)) k now c"
| "app_step NODE_ENV opts c (AppFocusRegain k) = focus_regain (revalidateOnFocus (opts k)) k c"
| "app_step NODE_ENV opts c (AppFetched k now endpoint nw) =
     settle k now (fst (apiRequest NODE_ENV endpoint nw)) c"

text \<open>
  Modelled from the spec: a run of the cache of \<open>useSWR\<close> (not in the source tree) under
  the application's fetchers.
\<close>

definition app_run ::
  "string \<Rightarrow> (string \<Rightarrow> SWROptions) \<Rightarrow> 'j payload Cache \<Rightarrow> 'j app_event list \<Rightarrow> 'j payload Cache" where
  "app_run NODE_ENV opts c evs = foldl (app_step NODE_ENV opts) c evs"


section \<open>The system-status poller of the dashboard (\<open>components/system-status.tsx\<close>)\<close>











section \<open>The loaders of the vanilla prototype (\<open>frontend2/script.js\<close>)\<close>












section \<open>Properties of the classifier\<close>

lemmas level_defs =
  good_def moderate_def unhealthySensitive_def unhealthy_def veryUnhealthy_def hazardous_def

lemmas proto_level_defs =
  proto_good_def proto_moderate_def proto_unhealthySensitive_def proto_unhealthy_def
  proto_veryUnhealthy_def proto_hazardous_def

lemma in_band_Fin:
  "in_band (Fin x) lv =
     (js_le (min_aqi lv) (Fin x) \<and> js_le (Fin x) (max_aqi lv))"
  by (simp add: in_band_def js_ge_def)

lemma in_band_NaN [simp]: "in_band NaN lv = False"
  by (simp add: in_band_def js_ge_def)

text \<open>The classifier of \<open>lib/air-quality-constants.ts\<close> on out-of-domain inputs.\<close>

lemma getAQILevel_NaN: "getAQILevel NaN = good"
  by (simp add: getAQILevel_def AQI_LEVELS_def)

lemma getAQILevel_negative: "x < 0 \<Longrightarrow> getAQILevel (Fin x) = good"
  by (simp add: getAQILevel_def AQI_LEVELS_def in_band_Fin level_defs)

lemma getAQILevel_above_500: "500 < x \<Longrightarrow> getAQILevel (Fin x) = good"
  by (simp add: getAQILevel_def AQI_LEVELS_def in_band_Fin level_defs)

lemma getAQILevel_infinite: "getAQILevel NegInf = good" "getAQILevel PosInf = good"
  by (simp_all add: getAQILevel_def AQI_LEVELS_def in_band_def js_ge_def level_defs)

text \<open>The classifier of the prototype on the same inputs.\<close>

lemma proto_getAQILevel_out_of_domain:
  "proto_getAQILevel NaN = \<lparr> entry = proto_hazardous, key = None \<rparr>"
  "x < 0 \<Longrightarrow> proto_getAQILevel (Fin x) = \<lparr> entry = proto_hazardous, key = None \<rparr>"
  "500 < x \<Longrightarrow> proto_getAQILevel (Fin x) = \<lparr> entry = proto_hazardous, key = None \<rparr>"
  by (simp_all add: proto_getAQILevel_def proto_AQI_LEVELS_def proto_level_defs js_ge_def)

text \<open>
  Claim C1.  For every aqi that is NaN, negative or greater than 500 the classifier
  returns the band labelled "Good", in every copy of the classifier.  The copy in
  \<open>lib/air-quality-constants.ts\<close> does (lemmas \<open>getAQILevel_NaN\<close>,
  \<open>getAQILevel_negative\<close>, \<open>getAQILevel_above_500\<close>); the copy in
  \<open>frontend2/script.js\<close> falls through to \<open>AQI_LEVELS.hazardous\<close> instead: at 600, at -10
  and at NaN it returns the band labelled "Hazardous".
\<close>

theorem proto_getAQILevel_fallback_hazardous:
  "proto_getAQILevel (Fin 600) = \<lparr> entry = proto_hazardous, key = None \<rparr>
   \<and> proto_getAQILevel (Fin (- 10)) = \<lparr> entry = proto_hazardous, key = None \<rparr>
   \<and> proto_getAQILevel NaN = \<lparr> entry = proto_hazardous, key = None \<rparr>
   \<and> plevel proto_hazardous = ''Hazardous''
   \<and> plevel (entry (proto_getAQILevel (Fin 600))) \<noteq> ''Good''
   \<and> level (getAQILevel (Fin 600)) = ''Good''"
  by (simp add: proto_getAQILevel_out_of_domain proto_hazardous_def getAQILevel_above_500
      good_def)

text \<open>
  Claim C2.  For every integer aqi in 0..500 exactly one entry of the band table
  satisfies \<open>min <= aqi <= max\<close>, and \<open>getAQILevel\<close> returns that entry's band.
\<close>

theorem getAQILevel_unique_band:
  assumes "0 \<le> i" and "i \<le> 500"
  shows "\<exists>k. filter (\<lambda>(k, lv). in_band (Fin (of_int i)) lv) AQI_LEVELS
            = [(k, getAQILevel (Fin (of_int i)))]"
proof -
  consider "i \<le> 50" | "51 \<le> i" "i \<le> 100" | "101 \<le> i" "i \<le> 150"
    | "151 \<le> i" "i \<le> 200" | "201 \<le> i" "i \<le> 300" | "301 \<le> i"
    by linarith
  then show ?thesis
    using assms
    by cases (simp_all add: getAQILevel_def AQI_LEVELS_def in_band_Fin level_defs)
qed

theorem getAQILevel_unique_band_witness:
  "(0::int) \<le> 175 \<and> (175::int) \<le> 500
   \<and> (\<exists>k. filter (\<lambda>(k, lv). in_band (Fin (of_int 175)) lv) AQI_LEVELS
            = [(k, getAQILevel (Fin (of_int 175)))])
   \<and> getAQILevel (Fin (of_int 175)) = unhealthy"
  using getAQILevel_unique_band [of 175]
  by (simp add: getAQILevel_def AQI_LEVELS_def in_band_Fin level_defs)

text \<open>
  Claim C9.  For every aqi strictly inside one of the gaps between consecutive bands
  (50 < aqi < 51, 100 < aqi < 101, 150 < aqi < 151, 200 < aqi < 201, 300 < aqi < 301)
  no band's inclusive range contains aqi, and \<open>getAQILevel\<close> falls through the scan and
  returns the "Good" band.
\<close>

theorem getAQILevel_gap_good:
  assumes "(50 < x \<and> x < 51) \<or> (100 < x \<and> x < 101) \<or> (150 < x \<and> x < 151)
           \<or> (200 < x \<and> x < 201) \<or> (300 < x \<and> x < 301)"
  shows "filter (\<lambda>(k, lv). in_band (Fin x) lv) AQI_LEVELS = []
         \<and> getAQILevel (Fin x) = good \<and> level (getAQILevel (Fin x)) = ''Good''"
  using assms
  by (auto simp add: getAQILevel_def AQI_LEVELS_def in_band_Fin level_defs)

theorem getAQILevel_gap_good_witness:
  "(300 < (3005 / 10 :: real) \<and> (3005 / 10 :: real) < 301)
   \<and> filter (\<lambda>(k, lv). in_band (Fin (3005 / 10)) lv) AQI_LEVELS = []
   \<and> getAQILevel (Fin (3005 / 10)) = good
   \<and> level (getAQILevel (Fin (3005 / 10))) = ''Good''"
  using getAQILevel_gap_good [of "3005 / 10"]
  by (simp add: good_def)

section \<open>Properties of the number formatter\<close>

lemma formatNumber_null: "formatNumber S Null d = Some ''--''"
  by (simp add: formatNumber_def)

lemma formatNumber_undefined: "formatNumber S Undefined d = Some ''--''"
  by (simp add: formatNumber_def)

lemma formatNumber_number:
  "formatNumber S (Num x) (Some d) = toFixed S x d"
  by (simp add: formatNumber_def parseFloat_def)

lemma decimal_426: "decimal 426 = ''426''"
  by (simp add: decimal.simps [of 426] decimal.simps [of 42] decimal.simps [of 4] digit_char_def)

text \<open>
  The double denoted by the literal \<open>42.567\<close> is \<open>5990772666821247 / 2^47\<close>, and
  \<open>2^47 = 140737488355328\<close>; both it and the decimal fraction itself are rendered as
  "42.6".
\<close>

lemma toFixed_42_567:
  "toFixed S (Fin (5990772666821247 / 140737488355328)) 1 = Some ''42.6''"
  "toFixed S (Fin 42.567) 1 = Some ''42.6''"
  unfolding toFixed_def by (simp_all add: Let_def decimal_426)

lemma formatNumber_42_567:
  "formatNumber S (Num (Fin (5990772666821247 / 140737488355328))) (Some 1) = Some ''42.6''"
  "proto_formatNumber S (Num (Fin (5990772666821247 / 140737488355328))) (Some 1) = Some ''42.6''"
  by (simp_all add: formatNumber_def proto_formatNumber_def parseFloat_def toFixed_42_567(1))

text \<open>
  Claim C3.  \<open>formatNumber\<close> returns "--" for null and undefined and the fixed-decimal
  rendering otherwise, in every copy of the helper.  The copy in
  \<open>lib/air-quality-constants.ts\<close> does: "--" for null and undefined, \<open>toFixed\<close> of the
  number otherwise, "42.6" for 42.567.  The copy in \<open>frontend2/script.js\<close> agrees on
  numbers, has no guard, and renders null and undefined as "NaN".
\<close>

theorem proto_formatNumber_null_NaN:
  "proto_formatNumber S Null (Some 1) = Some ''NaN''
   \<and> proto_formatNumber S Undefined (Some 1) = Some ''NaN''
   \<and> proto_formatNumber S Null (Some 1) \<noteq> Some ''--''
   \<and> formatNumber S Null (Some 1) = Some ''--''
   \<and> formatNumber S Undefined (Some 1) = Some ''--''
   \<and> formatNumber S (Num x) (Some d) = toFixed S x d
   \<and> formatNumber S (Num (Fin (5990772666821247 / 140737488355328))) (Some 1) = Some ''42.6''
   \<and> proto_formatNumber S (Num (Fin (5990772666821247 / 140737488355328))) (Some 1)
       = Some ''42.6''"
proof -
  have "proto_formatNumber S Null (Some 1) = Some ''NaN''"
    and "proto_formatNumber S Undefined (Some 1) = Some ''NaN''"
    by (simp_all add: proto_formatNumber_def parseFloat_def toFixed_def)
  then show ?thesis
    by (simp add: formatNumber_null formatNumber_undefined formatNumber_number
        formatNumber_42_567 toFixed_42_567(1))
qed


section \<open>Properties of the data hooks\<close>

text \<open>
  Claim C4.  The hooks configure the revalidation intervals and the visibility-regain
  flags of the specification's table: forecast 5 minutes / no, historical 15 minutes /
  no, alerts 2 minutes / yes, health recommendations 10 minutes / no, system status 30
  seconds / yes, validation metrics 30 minutes / no (intervals in milliseconds).
\<close>

theorem hooks_revalidation_table:
  "refreshInterval (options (useForecast_call location)) = 300000
   \<and> revalidateOnFocus (options (useForecast_call location)) = False
   \<and> refreshInterval (options (useHistorical_call location days)) = 900000
   \<and> revalidateOnFocus (options (useHistorical_call location days)) = False
   \<and> refreshInterval (options (useAlerts_call location)) = 120000
   \<and> revalidateOnFocus (options (useAlerts_call location)) = True
   \<and> refreshInterval (options (useHealthRecommendations_call location)) = 600000
   \<and> revalidateOnFocus (options (useHealthRecommendations_call location)) = False
   \<and> refreshInterval (options useSystemStatus_call) = 30000
   \<and> revalidateOnFocus (options useSystemStatus_call) = True
   \<and> refreshInterval (options (useValidation_call location)) = 1800000
   \<and> revalidateOnFocus (options (useValidation_call location)) = False"
  by (simp add: useForecast_call_def useHistorical_call_def useAlerts_call_def
      useHealthRecommendations_call_def useSystemStatus_call_def useValidation_call_def)


section \<open>Properties of the fetch wrapper\<close>

lemma fetch_calls: "calls (snd (fetch x limit nw)) = calls nw + 1"
  by (simp add: fetch_def Let_def)

lemma fetch_late:
  "\<not> arrives_before limit (next_reply nw) \<Longrightarrow> fst (fetch x limit nw) = FetchRejected x"
  by (cases "next_reply nw") (auto simp add: fetch_def next_reply_def Let_def split: list.splits)

text \<open>Neither branch calls \<open>fetch\<close> a second time.\<close>

lemma apiRequest_calls: "calls (snd (apiRequest env endpoint nw)) = calls nw + 1"
  by (simp add: apiRequest_def apiRequest_development_def apiRequest_production_def
      split_beta fetch_calls)

lemma apiRequest_production_late:
  assumes "NODE_ENV \<noteq> ''development''"
    and "\<not> arrives_before REQUEST_TIMEOUT (next_reply nw)"
  shows "fst (apiRequest NODE_ENV endpoint nw) = Rejected (new_Error ''Request timeout'')"
  using assms(1) fetch_late [OF assms(2), of AbortError]
  by (simp add: apiRequest_def apiRequest_production_def split_beta catch_block_def
      AbortError_def)

lemma apiRequest_production_http:
  assumes "NODE_ENV \<noteq> ''development''"
    and "next_reply nw = Headers t st msg b" and "t < REQUEST_TIMEOUT" and "\<not> response_ok st"
  shows "fst (apiRequest NODE_ENV endpoint nw)
           = Rejected (new_Error (''HTTP '' @ decimal st @ '': '' @ msg))"
  using assms
  by (auto simp add: apiRequest_def apiRequest_production_def split_beta catch_block_def
      new_Error_def fetch_def next_reply_def Let_def split: list.splits)

text \<open>
  Claim C5, as stated: every fetch attempt is bounded by a fixed 10-second timeout, and
  a fetch exceeding the bound is surfaced as a failure with the timeout error.  With
  \<open>NODE_ENV\<close> equal to "development" the bound is 2 seconds and the request that runs
  into it resolves with mock data: a response that would arrive after 5 seconds, well
  within 10, is cut off, and so is a request that is never answered; neither rejects.
\<close>

theorem apiRequest_development_cuts_at_2000:
  "fst (apiRequest ''development'' ''/forecast/Chicago''
          \<lparr> calls = 0, script = [Headers 5000 200 ''OK'' (BodyAt 5001 (Inr ()))] \<rparr>)
     = Resolved (Mock MockForecast)
   \<and> fst (apiRequest ''development'' ''/forecast/Chicago''
          \<lparr> calls = 0, script = [NoReply :: unit reply] \<rparr>)
     = Resolved (Mock MockForecast)
   \<and> fst (apiRequest ''development'' ''/forecast/Chicago''
          \<lparr> calls = 0, script = [NoReply :: unit reply] \<rparr>)
     \<noteq> Rejected (new_Error ''Request timeout'')"
  by (simp add: apiRequest_def apiRequest_development_def fetch_def getMockData_def)

text \<open>
  Claim C5, amended.  Outside development mode the timer is set to 10000 milliseconds;
  when no response has arrived by the time it fires, the fetch is aborted and
  \<open>apiRequest\<close> rejects with \<open>Error('Request timeout')\<close>; a non-2xx response that arrives in
  time rejects with \<open>Error('HTTP <status>: <text>')\<close>, a different error; and
  \<open>apiRequest\<close> calls \<open>fetch\<close> exactly once, so a timeout starts no retry.
\<close>

theorem apiRequest_production_timeout:
  assumes "NODE_ENV \<noteq> ''development''"
  shows "REQUEST_TIMEOUT = 10000
    \<and> (\<not> arrives_before REQUEST_TIMEOUT (next_reply nw) \<longrightarrow>
         fst (apiRequest NODE_ENV endpoint nw) = Rejected (new_Error ''Request timeout''))
    \<and> calls (snd (apiRequest NODE_ENV endpoint nw)) = calls nw + 1
    \<and> (\<forall>t st msg b.
         next_reply nw = Headers t st msg b \<and> t < REQUEST_TIMEOUT \<and> \<not> response_ok st \<longrightarrow>
         fst (apiRequest NODE_ENV endpoint nw)
           = Rejected (new_Error (''HTTP '' @ decimal st @ '': '' @ msg))
         \<and> new_Error (''HTTP '' @ decimal st @ '': '' @ msg) \<noteq> new_Error ''Request timeout'')"
proof -
  have c1: "REQUEST_TIMEOUT = 10000"
    by (simp add: REQUEST_TIMEOUT_def)
  have c2: "\<not> arrives_before REQUEST_TIMEOUT (next_reply nw) \<longrightarrow>
         fst (apiRequest NODE_ENV endpoint nw) = Rejected (new_Error ''Request timeout'')"
    using assms apiRequest_production_late by blast
  have c3: "calls (snd (apiRequest NODE_ENV endpoint nw)) = calls nw + 1"
    by (rule apiRequest_calls)
  have c4: "fst (apiRequest NODE_ENV endpoint nw)
           = Rejected (new_Error (''HTTP '' @ decimal st @ '': '' @ msg))
         \<and> new_Error (''HTTP '' @ decimal st @ '': '' @ msg) \<noteq> new_Error ''Request timeout''"
    if "next_reply nw = Headers t st msg b \<and> t < REQUEST_TIMEOUT \<and> \<not> response_ok st"
    for t st msg b
    using assms that apiRequest_production_http [of NODE_ENV nw t st msg b endpoint]
    by (simp add: new_Error_def)
  from c1 c2 c3 c4 show ?thesis
    by blast
qed

lemma decimal_503: "decimal 503 = ''503''"
  by (simp add: decimal.simps [of 503] decimal.simps [of 50] decimal.simps [of 5] digit_char_def)

theorem apiRequest_production_timeout_witness:
  "''production'' \<noteq> ''development''
   \<and> \<not> arrives_before REQUEST_TIMEOUT
        (next_reply \<lparr> calls = 0, script = [Headers 15000 200 ''OK'' (BodyAt 15001 (Inr ()))] \<rparr>)
   \<and> fst (apiRequest ''production'' ''/forecast/Chicago''
        \<lparr> calls = 0, script = [Headers 15000 200 ''OK'' (BodyAt 15001 (Inr ()))] \<rparr>)
       = Rejected (new_Error ''Request timeout'')
   \<and> calls (snd (apiRequest ''production'' ''/forecast/Chicago''
        \<lparr> calls = 0, script = [Headers 15000 200 ''OK'' (BodyAt 15001 (Inr ()))] \<rparr>)) = 1
   \<and> (next_reply \<lparr> calls = 0, script = [Headers 120 503 ''Service Unavailable'' (BodyNever :: unit body)] \<rparr>
         = Headers 120 503 ''Service Unavailable'' BodyNever
       \<and> 120 < REQUEST_TIMEOUT \<and> \<not> response_ok 503)
   \<and> fst (apiRequest ''production'' ''/forecast/Chicago''
        \<lparr> calls = 0, script = [Headers 120 503 ''Service Unavailable'' (BodyNever :: unit body)] \<rparr>)
       = Rejected (new_Error ''HTTP 503: Service Unavailable'')"
proof -
  let ?late = "\<lparr> calls = 0, script = [Headers 15000 200 ''OK'' (BodyAt 15001 (Inr ()))] \<rparr>"
  let ?down = "\<lparr> calls = 0,
     script = [Headers 120 503 ''Service Unavailable'' (BodyNever :: unit body)] \<rparr>"
  have p: "''production'' \<noteq> ''development''"
    by simp
  have late: "\<not> arrives_before REQUEST_TIMEOUT (next_reply ?late)"
    by (simp add: next_reply_def REQUEST_TIMEOUT_def)
  have d1: "next_reply ?down = Headers 120 503 ''Service Unavailable'' BodyNever"
    by (simp add: next_reply_def)
  have d2: "120 < REQUEST_TIMEOUT"
    by (simp add: REQUEST_TIMEOUT_def)
  have d3: "\<not> response_ok 503"
    by (simp add: response_ok_def)
  note down = conjI [OF d1 conjI [OF d2 d3]]
  note w = apiRequest_production_timeout [OF p, of ?late "''/forecast/Chicago''"]
  note v = apiRequest_production_timeout [OF p, of ?down "''/forecast/Chicago''"]
  have w2: "fst (apiRequest ''production'' ''/forecast/Chicago'' ?late)
       = Rejected (new_Error ''Request timeout'')"
    using w [THEN conjunct2, THEN conjunct1, THEN mp, OF late] .
  have w3: "calls (snd (apiRequest ''production'' ''/forecast/Chicago'' ?late)) = 1"
    using w [THEN conjunct2, THEN conjunct2, THEN conjunct1] by simp
  have v4: "fst (apiRequest ''production'' ''/forecast/Chicago'' ?down)
       = Rejected (new_Error ''HTTP 503: Service Unavailable'')"
    using v [THEN conjunct2, THEN conjunct2, THEN conjunct2, rule_format, OF down,
        THEN conjunct1]
    by (simp add: decimal_503)
  show ?thesis
    by (intro conjI) (rule p late d1 d2 d3 w2 w3 v4)+
qed


section \<open>Properties of the polling data cache\<close>











lemma apiRequest_development_resolved:
  "fst (apiRequest ''development'' endpoint nw)
     = Resolved (case delivered_before 2000 (next_reply nw) of
                   Some j \<Rightarrow> Json j
                 | None \<Rightarrow> Mock (getMockData endpoint))"
  by (cases "(2000::nat, next_reply nw)" rule: delivered_before.cases)
    (auto simp add: apiRequest_def apiRequest_development_def fetch_def next_reply_def
      response_json_def Let_def split: list.splits)

lemma getMockData_forecast: "getMockData (''/forecast/'' @ location) = MockForecast"
  by (simp add: getMockData_def)

lemma getMockData_others:
  "getMockData ''/forecast'' = MockAllForecasts"
  "getMockData ''/alerts/Chicago'' = MockAlerts"
  "getMockData ''/data/status'' = MockEmpty"
  by (simp_all add: getMockData_def)

lemma entry_error_start_fetch: "entry_error (start_fetch k c) k' = entry_error c k'"
  by (auto simp add: entry_error_def start_fetch_def split: option.splits)

lemma entry_error_subscribe: "entry_error (subscribe k c) k' = entry_error c k'"
  by (auto simp add: entry_error_def subscribe_def start_fetch_def split: option.splits)

lemma entry_error_tick: "entry_error (tick n k now c) k' = entry_error c k'"
  by (simp add: tick_def entry_error_start_fetch split: option.splits)

lemma entry_error_focus_regain: "entry_error (focus_regain b k c) k' = entry_error c k'"
  by (simp add: focus_regain_def entry_error_start_fetch)

lemma entry_error_success:
  "entry_error c k' = None \<Longrightarrow> entry_error (complete_fetch k now (Inr v) c) k' = None"
  by (auto simp add: entry_error_def complete_fetch_def split: option.splits)

lemma app_step_development_no_error:
  assumes "\<forall>k. entry_error c k = None"
  shows "\<forall>k. entry_error (app_step ''development'' opts c ev) k = None"
proof (cases ev)
  case (AppSubscribe k)
  with assms show ?thesis by (simp add: entry_error_subscribe)
next
  case (AppTick k now)
  with assms show ?thesis by (simp add: entry_error_tick)
next
  case (AppFocusRegain k)
  with assms show ?thesis by (simp add: entry_error_focus_regain)
next
  case (AppFetched k now endpoint nw)
  with assms show ?thesis
    by (simp add: settle_def apiRequest_development_resolved entry_error_success)
qed

lemma app_run_development_no_error:
  "\<forall>k. entry_error c k = None \<Longrightarrow> \<forall>k. entry_error (app_run ''development'' opts c evs) k = None"
  unfolding app_run_def
proof (induction evs arbitrary: c)
  case Nil
  then show ?case by simp
next
  case (Cons ev evs)
  from Cons.prems have "\<forall>k. entry_error (app_step ''development'' opts c ev) k = None"
    by (rule app_step_development_no_error)
  then show ?case
    using Cons.IH by simp
qed

lemma entry_error_empty: "entry_error empty_cache k = None"
  by (simp add: entry_error_def empty_cache_def)

lemma useForecast_isError:
  "isError (useForecast (cache_useSWR mutate c) location)
     = (case swr_key (useForecast_call location) of None \<Rightarrow> None | Some k \<Rightarrow> entry_error c k)"
  by (simp add: useForecast_def cache_useSWR_def entry_error_def Let_def split: option.splits)

lemma production_outage_reaches_hook:
  "isError (useForecast (cache_useSWR mutate
      (app_run ''production'' opts empty_cache
         [AppSubscribe ''/forecast/Chicago'',
          AppFetched ''/forecast/Chicago'' 120 ''/forecast/Chicago''
            \<lparr> calls = 0, script = [Headers 120 503 ''Service Unavailable'' BodyNever] \<rparr>]))
      (Some ''Chicago''))
     = Some (new_Error ''HTTP 503: Service Unavailable'')"
  by (simp add: useForecast_isError useForecast_call_def key_for_def app_run_def settle_def
      apiRequest_def apiRequest_production_def fetch_def response_ok_def catch_block_def
      new_Error_def decimal_503 subscribe_def start_fetch_def complete_fetch_def
      entry_error_def empty_cache_def REQUEST_TIMEOUT_def AbortError_def)

text \<open>
  Claim C10.  With \<open>NODE_ENV\<close> equal to "development", \<open>apiRequest\<close> never rejects: it
  resolves with the parsed body when an ok response and its body arrive within 2000
  milliseconds, and with the mock data chosen by the endpoint in every other case
  (failure, non-2xx status, unparsable body, timeout).  The mock data depends on the
  endpoint: the forecast mock for \<open>/forecast/<location>\<close> (so for \<open>getForecast\<close>), the map
  of forecasts for \<open>/forecast\<close>, the alerts for \<open>/alerts/<location>\<close> (\<open>getAlerts\<close>), the
  empty object otherwise (\<open>getSystemStatus\<close>).  So in
  development mode, whatever the fetchers ask for and whatever the network does, no
  entry of the cache ever holds an error and \<open>useForecast\<close> never reports \<open>isError\<close>;
  outside development mode an outage does reach the hook.
\<close>

theorem apiRequest_development_always_resolves:
  "fst (apiRequest ''development'' endpoint nw)
     = Resolved (case delivered_before 2000 (next_reply nw) of
                   Some j \<Rightarrow> Json j
                 | None \<Rightarrow> Mock (getMockData endpoint))
   \<and> (\<forall>e. fst (apiRequest ''development'' endpoint nw) \<noteq> Rejected e)
   \<and> fst (apiRequest ''development'' endpoint nw) \<noteq> Pending
   \<and> calls (snd (apiRequest ''development'' endpoint nw)) = calls nw + 1
   \<and> fst (getForecast ''development'' location nw)
       = Resolved (case delivered_before 2000 (next_reply nw) of
                     Some j \<Rightarrow> Json j
                   | None \<Rightarrow> Mock MockForecast)
   \<and> fst (getAlerts ''development'' ''Chicago'' nw)
       = Resolved (case delivered_before 2000 (next_reply nw) of
                     Some j \<Rightarrow> Json j
                   | None \<Rightarrow> Mock MockAlerts)
   \<and> fst (getSystemStatus ''development'' nw)
       = Resolved (case delivered_before 2000 (next_reply nw) of
                     Some j \<Rightarrow> Json j
                   | None \<Rightarrow> Mock MockEmpty)
   \<and> getMockData (''/forecast/'' @ location) = MockForecast
   \<and> getMockData ''/forecast'' = MockAllForecasts
   \<and> getMockData ''/alerts/Chicago'' = MockAlerts
   \<and> getMockData ''/data/status'' = MockEmpty
   \<and> entry_error (app_run ''development'' opts empty_cache evs) k = None
   \<and> isError (useForecast (cache_useSWR mutate (app_run ''development'' opts empty_cache evs)) loc)
       = None
   \<and> \<not> error_truthy
        (isError (useForecast (cache_useSWR mutate (app_run ''development'' opts empty_cache evs))
           loc))
   \<and> isError (useForecast (cache_useSWR mutate
        (app_run ''production'' opts empty_cache
           [AppSubscribe ''/forecast/Chicago'',
            AppFetched ''/forecast/Chicago'' 120 ''/forecast/Chicago''
              \<lparr> calls = 0, script = [Headers 120 503 ''Service Unavailable'' BodyNever] \<rparr>]))
        (Some ''Chicago''))
       = Some (new_Error ''HTTP 503: Service Unavailable'')"
proof -
  have quiet: "entry_error (app_run ''development'' opts empty_cache evs) k = None" for k
    using app_run_development_no_error [of empty_cache opts evs] by (simp add: entry_error_empty)
  have hook: "isError (useForecast (cache_useSWR mutate
      (app_run ''development'' opts empty_cache evs)) loc) = None"
    by (simp add: useForecast_isError quiet split: option.splits)
  have never: "\<forall>e. fst (apiRequest ''development'' endpoint nw) \<noteq> Rejected e"
    and settled: "fst (apiRequest ''development'' endpoint nw) \<noteq> Pending"
    by (simp_all add: apiRequest_development_resolved)
  have falsy: "\<not> error_truthy (isError (useForecast (cache_useSWR mutate
      (app_run ''development'' opts empty_cache evs)) loc))"
    by (simp add: hook)
  have f1: "fst (getForecast ''development'' location nw)
       = Resolved (case delivered_before 2000 (next_reply nw) of
                     Some j \<Rightarrow> Json j
                   | None \<Rightarrow> Mock MockForecast)"
    unfolding getForecast_def apiRequest_development_resolved getMockData_forecast ..
  have f2: "fst (getAlerts ''development'' ''Chicago'' nw)
       = Resolved (case delivered_before 2000 (next_reply nw) of
                     Some j \<Rightarrow> Json j
                   | None \<Rightarrow> Mock MockAlerts)"
    by (simp add: getAlerts_def apiRequest_development_resolved getMockData_others
        split: option.splits)
  have f3: "fst (getSystemStatus ''development'' nw)
       = Resolved (case delivered_before 2000 (next_reply nw) of
                     Some j \<Rightarrow> Json j
                   | None \<Rightarrow> Mock MockEmpty)"
    by (simp add: getSystemStatus_def apiRequest_development_resolved getMockData_others
        split: option.splits)
  show ?thesis
    by (intro conjI)
      (rule apiRequest_development_resolved never settled apiRequest_calls f1 f2 f3
        getMockData_forecast getMockData_others quiet hook falsy
        production_outage_reaches_hook)+
qed


section \<open>Properties of the system-status poller\<close>





section \<open>Properties of the loaders and of \<open>refresh\<close>\<close>







end
